theory Spec2Isabelle
  imports Main
begin

section \<open>Preprod database migration script\<close>

text \<open>
  A shallow embedding of \<^verbatim>\<open>preprod_migration.py\<close>. The script builds argument lists,
  runs \<^verbatim>\<open>pg_dump\<close> and \<^verbatim>\<open>psql\<close> as subprocesses, writes one file, asks one question and
  prints status text. Everything it does to the outside is recorded, in program order, as
  an event of a trace carried by the state.

  What the outside answers is a parameter of the model: the process table \<open>proc\<close> gives the
  exit status of a command run with an environment on a file system, and what the command
  writes to its standard output and to its standard error; \<open>line\<close> is the line typed at
  the prompt. The library calls are taken to return (the tools are on the path, their
  output can be decoded, the file can be opened, a line can be read), as the script itself
  assumes: it has no \<^verbatim>\<open>try\<close>.

  A Python \<^verbatim>\<open>str\<close> is a \<^typ>\<open>string\<close>, one \<^typ>\<open>char\<close> for each code point below 256.
  What a command writes and what a file holds are read as text in the same way; the
  encoding between text and bytes is not part of the model. What text mode does to
  the ends of lines is: on reading the output of a subprocess it turns them all into line
  feeds, and on writing a file it leaves a line feed as it is, as on every system whose
  line separator is the line feed.
\<close>

subsection \<open>Constants of the module\<close>

definition SOURCE_HOST :: string where
  "SOURCE_HOST = ''aws-1-ap-southeast-1.pooler.supabase.com''"

definition SOURCE_PORT :: string where
  "SOURCE_PORT = ''5432''"

definition SOURCE_USER :: string where
  "SOURCE_USER = ''postgres.bamybvzufxijghzqdytu''"

definition SOURCE_DB :: string where
  "SOURCE_DB = ''postgres''"

definition TARGET_HOST :: string where
  "TARGET_HOST = ''aws-1-ap-southeast-1.pooler.supabase.com''"

definition TARGET_PORT :: string where
  "TARGET_PORT = ''5432''"

definition TARGET_USER :: string where
  "TARGET_USER = ''postgres.jqihlckqrhdxszgwuymu''"

definition TARGET_DB :: string where
  "TARGET_DB = ''postgres''"

definition PASSWORD :: string where
  "PASSWORD = ''Turun_2020-''"

definition REQUIRED_TABLES :: "string list" where
  "REQUIRED_TABLES =
    [''roles'', ''users'', ''organization_types'', ''organizations'',
     ''regions'', ''states'', ''districts'',
     ''brands'', ''product_categories'', ''product_groups'', ''product_subgroups'',
     ''products'', ''product_variants'', ''product_attributes'', ''product_images'',
     ''product_pricing'', ''product_inventory'', ''product_skus'',
     ''orders'', ''order_items'', ''payment_terms'',
     ''qr_batches'', ''qr_codes'', ''qr_master_codes'', ''qr_movements'',
     ''qr_prepared_codes'', ''qr_reverse_jobs'', ''qr_reverse_job_items'',
     ''qr_reverse_job_logs'', ''qr_secret_codes'', ''qr_validation_reports'',
     ''documents'', ''document_files'', ''document_signatures'', ''doc_counters'',
     ''stock_movements'', ''stock_transfers'', ''stock_adjustments'',
     ''stock_adjustment_items'', ''stock_adjustment_reasons'',
     ''stock_adjustment_manufacturer_actions'', ''wms_movement_dedup'',
     ''distributor_products'', ''shop_distributors'',
     ''journey_configurations'', ''journey_order_links'',
     ''lucky_draw_campaigns'', ''lucky_draw_entries'', ''lucky_draw_order_links'',
     ''scratch_card_campaigns'', ''scratch_card_rewards'', ''scratch_card_plays'',
     ''spin_wheel_campaigns'', ''spin_wheel_rewards'', ''spin_wheel_plays'',
     ''daily_quiz_campaigns'', ''daily_quiz_questions'', ''daily_quiz_plays'',
     ''points_rules'', ''points_transactions'', ''point_rewards'',
     ''consumer_activations'', ''consumer_feedback'', ''consumer_qr_scans'',
     ''redeem_items'', ''redeem_gifts'', ''redeem_gift_transactions'',
     ''redemption_policies'', ''redemption_orders'', ''redemption_order_limits'',
     ''redemption_gifts'',
     ''notification_types'', ''notification_settings'',
     ''notification_provider_configs'', ''notification_logs'',
     ''notifications_outbox'', ''org_notification_settings'', ''message_templates'',
     ''email_send_log'',
     ''otp_challenges'',
     ''audit_logs'']"

definition EXCLUDED_TABLES :: "string list" where
  "EXCLUDED_TABLES = []"

subsection \<open>The state of a run\<close>

type_synonym dict = "string \<rightharpoonup> string"

text \<open>
  Dictionaries are objects: \<^verbatim>\<open>os.environ\<close> is one, and \<^verbatim>\<open>os.environ.copy()\<close> makes
  another. An address says which object a variable holds, so that an assignment through
  one name is seen through every other name of the same object.
\<close>

datatype addr = Environ | Obj nat

datatype event =
    Print string
  | Run "string list" dict
  | Open_w string
  | Write string string
  | Input string

record world =
  environ :: dict
  objs :: "dict list"
  files :: "string \<rightharpoonup> string"
  events :: "event list"

type_synonym proc = "string list \<Rightarrow> dict \<Rightarrow> (string \<rightharpoonup> string) \<Rightarrow> int \<times> string \<times> string"

record completed =
  returncode :: int
  stdout :: "string option"
  stderr :: "string option"

datatype exn = TypeError

definition deref :: "addr \<Rightarrow> world \<Rightarrow> dict" where
  "deref a w = (case a of Environ \<Rightarrow> environ w | Obj i \<Rightarrow> objs w ! i)"

text \<open>\<^verbatim>\<open>d.copy()\<close>: a new object with the entries of \<open>d\<close>.\<close>

definition dict_copy :: "addr \<Rightarrow> world \<Rightarrow> addr \<times> world" where
  "dict_copy a w = (Obj (length (objs w)), w\<lparr>objs := objs w @ [deref a w]\<rparr>)"

text \<open>\<^verbatim>\<open>d[k] = v\<close>: the object is changed in place.\<close>

definition dict_setitem :: "addr \<Rightarrow> string \<Rightarrow> string \<Rightarrow> world \<Rightarrow> world" where
  "dict_setitem a k v w =
     (case a of
        Environ \<Rightarrow> w\<lparr>environ := (environ w)(k \<mapsto> v)\<rparr>
      | Obj i \<Rightarrow> w\<lparr>objs := (objs w)[i := (objs w ! i)(k \<mapsto> v)]\<rparr>)"

definition print :: "string \<Rightarrow> world \<Rightarrow> world" where
  "print s w = w\<lparr>events := events w @ [Print s]\<rparr>"

text \<open>
  Reading in text mode: a carriage return followed by a line feed becomes one line feed,
  and a carriage return alone becomes a line feed.
\<close>

fun universal_newlines :: "string \<Rightarrow> string" where
  "universal_newlines [] = []"
| "universal_newlines [c] = (if c = CHR 0x0D then [CHR 0x0A] else [c])"
| "universal_newlines (c # d # cs) =
     (if c = CHR 0x0D \<and> d = CHR 0x0A then CHR 0x0A # universal_newlines cs
      else if c = CHR 0x0D then CHR 0x0A # universal_newlines (d # cs)
      else c # universal_newlines (d # cs))"

text \<open>
  \<^verbatim>\<open>subprocess.run(cmd, env=env, capture_output=c, text=True)\<close>: the child gets the
  entries of \<open>env\<close> as they are at the call. Its output is in the result only when
  captured, and then as text read in text mode.
\<close>

definition subprocess_run :: "proc \<Rightarrow> string list \<Rightarrow> addr \<Rightarrow> bool \<Rightarrow> world \<Rightarrow> completed \<times> world" where
  "subprocess_run proc cmd env capture_output w =
     (case proc cmd (deref env w) (files w) of
        (rc, out, err) \<Rightarrow>
          (\<lparr>returncode = rc,
            stdout = (if capture_output then Some (universal_newlines out) else None),
            stderr = (if capture_output then Some (universal_newlines err) else None)\<rparr>,
           w\<lparr>events := events w @ [Run cmd (deref env w)]\<rparr>))"

text \<open>\<^verbatim>\<open>open(name, 'w')\<close> creates the file or empties it.\<close>

definition open_w :: "string \<Rightarrow> world \<Rightarrow> world" where
  "open_w name w = w\<lparr>files := (files w)(name \<mapsto> []), events := events w @ [Open_w name]\<rparr>"

text \<open>
  \<^verbatim>\<open>f.write(s)\<close> appends the text to the open file, line feeds as they are; it raises
  when \<open>s\<close> is \<^verbatim>\<open>None\<close>.
\<close>

definition f_write :: "string \<Rightarrow> string option \<Rightarrow> world \<Rightarrow> (exn + unit) \<times> world" where
  "f_write name s w =
     (case s of
        None \<Rightarrow> (Inl TypeError, w)
      | Some t \<Rightarrow>
          (Inr (),
           w\<lparr>files := (files w)(name \<mapsto> (case files w name of None \<Rightarrow> [] | Some old \<Rightarrow> old) @ t),
             events := events w @ [Write name t]\<rparr>))"

text \<open>\<^verbatim>\<open>input(prompt)\<close> shows the prompt and returns the line typed, without its newline.\<close>

definition input :: "string \<Rightarrow> string \<Rightarrow> world \<Rightarrow> string \<times> world" where
  "input line prompt w = (line, w\<lparr>events := events w @ [Input prompt]\<rparr>)"

subsection \<open>Strings\<close>

text \<open>
  \<^verbatim>\<open>str.lower()\<close> on code points below 256: the letters A to Z and the capital letters
  of the Latin-1 block (192 to 222, without the multiplication sign 215) move up by 32;
  every other code point stays.
\<close>

definition lower_char :: "char \<Rightarrow> char" where
  "lower_char c =
     (let n = (of_char c :: nat)
      in if (65 \<le> n \<and> n \<le> 90) \<or> (192 \<le> n \<and> n \<le> 222 \<and> n \<noteq> 215)
         then char_of (n + 32) else c)"

definition lower :: "string \<Rightarrow> string" where
  "lower s = map lower_char s"

text \<open>
  \<^verbatim>\<open>str(n)\<close> for a length: the decimal digits. \<open>digit_char\<close> is only used below ten.
\<close>

definition digit_char :: "nat \<Rightarrow> char" where
  "digit_char d = ''0123456789'' ! d"

function str_of_nat :: "nat \<Rightarrow> string" where
  "str_of_nat n =
     (if n < 10 then [digit_char n] else str_of_nat (n div 10) @ [digit_char (n mod 10)])"
  by pat_completeness auto
termination
  by (relation "measure id") auto

declare str_of_nat.simps [simp del]

text \<open>The string printed for a value inside an f-string; \<^verbatim>\<open>None\<close> prints as its name.\<close>

definition fmt :: "string option \<Rightarrow> string" where
  "fmt s = (case s of None \<Rightarrow> ''None'' | Some t \<Rightarrow> t)"

subsection \<open>The helpers\<close>

definition run_psql_cmd :: "string \<Rightarrow> string \<Rightarrow> string \<Rightarrow> string \<Rightarrow> string list" where
  "run_psql_cmd host user db sql =
     [''psql'',
      ''-h'', host,
      ''-p'', ''5432'',
      ''-U'', user,
      ''-d'', db,
      ''--set'', ''ON_ERROR_STOP=on'',
      ''-c'', sql]"

definition run_psql :: "proc \<Rightarrow> string \<Rightarrow> string \<Rightarrow> string \<Rightarrow> string \<Rightarrow> bool \<Rightarrow> world \<Rightarrow> completed \<times> world" where
  "run_psql proc host user db sql capture_output w =
     (case dict_copy Environ w of
        (env, w1) \<Rightarrow>
          (let w2 = dict_setitem env ''PGPASSWORD'' PASSWORD w1;
               cmd = run_psql_cmd host user db sql
           in case subprocess_run proc cmd env capture_output w2 of
                (result, w3) \<Rightarrow>
                  (if returncode result \<noteq> 0
                   then (result, print (''Error: '' @ fmt (stderr result)) w3)
                   else (result, w3))))"

definition run_psql_file_cmd :: "string \<Rightarrow> string \<Rightarrow> string \<Rightarrow> string \<Rightarrow> string list" where
  "run_psql_file_cmd host user db filename =
     [''psql'',
      ''-h'', host,
      ''-p'', ''5432'',
      ''-U'', user,
      ''-d'', db,
      ''-f'', filename]"

definition run_psql_file :: "proc \<Rightarrow> string \<Rightarrow> string \<Rightarrow> string \<Rightarrow> string \<Rightarrow> world \<Rightarrow> completed \<times> world" where
  "run_psql_file proc host user db filename w =
     (case dict_copy Environ w of
        (env, w1) \<Rightarrow>
          (let w2 = dict_setitem env ''PGPASSWORD'' PASSWORD w1;
               cmd = run_psql_file_cmd host user db filename
           in subprocess_run proc cmd env True w2))"

text \<open>
  The argument list of \<^verbatim>\<open>pg_dump_schema\<close>. \<^verbatim>\<open>if tables:\<close> is false for \<^verbatim>\<open>None\<close> and for
  the empty list; the loop adds two arguments for each table.
\<close>

definition pg_dump_schema_cmd :: "string list option \<Rightarrow> bool \<Rightarrow> string list" where
  "pg_dump_schema_cmd tables include_data =
     [''pg_dump'',
      ''-h'', SOURCE_HOST,
      ''-p'', SOURCE_PORT,
      ''-U'', SOURCE_USER,
      ''-d'', SOURCE_DB,
      ''--no-owner'',
      ''--no-acl'',
      ''-n'', ''public'']
     @ (if \<not> include_data then [''--schema-only''] else [])
     @ (case tables of
          None \<Rightarrow> []
        | Some ts \<Rightarrow> concat (map (\<lambda>table. [''-t'', ''public.'' @ table]) ts))"

definition pg_dump_schema :: "proc \<Rightarrow> string list option \<Rightarrow> bool \<Rightarrow> world \<Rightarrow> string option \<times> world" where
  "pg_dump_schema proc tables include_data w =
     (case dict_copy Environ w of
        (env, w1) \<Rightarrow>
          (let w2 = dict_setitem env ''PGPASSWORD'' PASSWORD w1;
               cmd = pg_dump_schema_cmd tables include_data
           in case subprocess_run proc cmd env True w2 of
                (result, w3) \<Rightarrow> (stdout result, w3)))"

subsection \<open>The main flow\<close>

text \<open>\<^verbatim>\<open>len(s)\<close> counts the code points of a string and raises on \<^verbatim>\<open>None\<close>.\<close>

definition len :: "string option \<Rightarrow> exn + nat" where
  "len s = (case s of None \<Rightarrow> Inl TypeError | Some t \<Rightarrow> Inr (length t))"

text \<open>
  \<^verbatim>\<open>main\<close>, statement by statement. The \<^verbatim>\<open>with\<close> block opens the file and writes
  to it; an exception leaves \<^verbatim>\<open>main\<close> at once. In
  \<^verbatim>\<open>result.stderr[:2000] if result.stderr else "No error output"\<close> both \<^verbatim>\<open>None\<close> and
  the empty string count as false.
\<close>

definition main :: "proc \<Rightarrow> string \<Rightarrow> world \<Rightarrow> (exn + unit) \<times> world" where
  "main proc line w =
     (let w1 = print (replicate 60 CHR ''='') w;
          w2 = print ''PREPROD DATABASE MIGRATION'' w1;
          w3 = print (replicate 60 CHR ''='') w2;
          w4 = print (CHR 0x0A # ''[Step 1] Exporting schema from source database...'') w3
      in case pg_dump_schema proc None False w4 of
           (schema_sql, w5) \<Rightarrow>
      (case f_write ''preprod_schema_export.sql'' schema_sql
              (open_w ''preprod_schema_export.sql'' w5) of
         (Inl e, w6) \<Rightarrow> (Inl e, w6)
       | (Inr u, w6) \<Rightarrow>
      (case len schema_sql of
         Inl e \<Rightarrow> (Inl e, w6)
       | Inr n \<Rightarrow>
      (let w7 = print (''Schema exported to preprod_schema_export.sql (''
                       @ str_of_nat n @ '' bytes)'') w6;
           w8 = print (CHR 0x0A # ''[Step 2] This will apply schema to target database.'') w7;
           w9 = print (''Target: '' @ TARGET_HOST @ '' / '' @ TARGET_USER) w8
       in case input line ''Continue? (yes/no): '' w9 of
            (confirm, w10) \<Rightarrow>
      (if lower confirm \<noteq> ''yes''
       then (Inr (), print ''Aborted.'' w10)
       else
      (case run_psql_file proc TARGET_HOST TARGET_USER TARGET_DB
              ''preprod_schema_export.sql'' w10 of
         (result, w11) \<Rightarrow>
      (let w12 =
             (if returncode result = 0
              then print ''Schema applied successfully!'' w11
              else print (case stderr result of
                            None \<Rightarrow> ''No error output''
                          | Some err \<Rightarrow> if err = [] then ''No error output'' else take 2000 err)
                     (print ''Schema application had issues:'' w11));
           w13 = print (CHR 0x0A # ''[Step 3] Migration complete!'') w12;
           w14 = print (CHR 0x0A # ''Next steps:'') w13;
           w15 = print ''1. Migrate admin user manually'' w14;
           w16 = print ''2. Update preprod environment variables'' w15;
           w17 = print ''3. Test login functionality'' w16
       in (Inr (), w17))))))))"

subsection \<open>Reading a run\<close>

text \<open>The environment every helper hands to its child process.\<close>

definition child_env :: "world \<Rightarrow> dict" where
  "child_env w = (environ w)(''PGPASSWORD'' \<mapsto> PASSWORD)"

text \<open>The text captured from the standard output of the dump of \<^verbatim>\<open>main\<close>.\<close>

definition dump_out :: "proc \<Rightarrow> world \<Rightarrow> string" where
  "dump_out proc w =
     universal_newlines
       (fst (snd (proc (pg_dump_schema_cmd None False) (child_env w) (files w))))"

text \<open>
  The command of the apply step, and what its completed process holds once the export
  file is written: the exit status and the captured texts of the two outputs.
\<close>

definition apply_cmd :: "string list" where
  "apply_cmd = run_psql_file_cmd TARGET_HOST TARGET_USER TARGET_DB ''preprod_schema_export.sql''"

definition apply_result :: "proc \<Rightarrow> world \<Rightarrow> int \<times> string \<times> string" where
  "apply_result proc w =
     (let r = proc apply_cmd (child_env w)
                ((files w)(''preprod_schema_export.sql'' \<mapsto> dump_out proc w))
      in (fst r, universal_newlines (fst (snd r)), universal_newlines (snd (snd r))))"

text \<open>The events of a run of \<^verbatim>\<open>main\<close>, without those the state held before.\<close>

definition new_events :: "proc \<Rightarrow> string \<Rightarrow> world \<Rightarrow> event list" where
  "new_events proc line w = drop (length (events w)) (events (snd (main proc line w)))"

fun is_print :: "event \<Rightarrow> bool" where
  "is_print (Print s) = True"
| "is_print e = False"

fun is_input :: "event \<Rightarrow> bool" where
  "is_input (Input p) = True"
| "is_input e = False"

fun is_file_event :: "event \<Rightarrow> bool" where
  "is_file_event (Open_w name) = True"
| "is_file_event (Write name s) = True"
| "is_file_event e = False"

text \<open>The subprocess invocations of a trace, in order: command and environment.\<close>

fun runs :: "event list \<Rightarrow> (string list \<times> dict) list" where
  "runs [] = []"
| "runs (Run cmd env # es) = (cmd, env) # runs es"
| "runs (e # es) = runs es"

text \<open>What follows the first prompt of a trace.\<close>

definition after_input :: "event list \<Rightarrow> event list" where
  "after_input es = drop 1 (dropWhile (\<lambda>e. \<not> is_input e) es)"

text \<open>The arguments \<open>a\<close>, \<open>b\<close> stand next to each other, in this order, in a command.\<close>

fun adjacent :: "'a \<Rightarrow> 'a \<Rightarrow> 'a list \<Rightarrow> bool" where
  "adjacent a b (x # y # xs) = ((x = a \<and> y = b) \<or> adjacent a b (y # xs))"
| "adjacent a b xs = False"

text \<open>The eight ways of writing the word yes in upper and lower case.\<close>

definition yes_spellings :: "string list" where
  "yes_spellings = [''yes'', ''yeS'', ''yEs'', ''yES'', ''Yes'', ''YeS'', ''YEs'', ''YES'']"

text \<open>A process table that differs from \<open>proc\<close> in the exit status and error text of \<^verbatim>\<open>pg_dump\<close> only.\<close>

definition set_dump_status :: "int \<Rightarrow> string \<Rightarrow> proc \<Rightarrow> proc" where
  "set_dump_status rc err proc cmd env fs =
     (if hd cmd = ''pg_dump'' then (rc, fst (snd (proc cmd env fs)), err) else proc cmd env fs)"

text \<open>
  A sample run: \<^verbatim>\<open>pg_dump\<close> succeeds and prints one statement, \<^verbatim>\<open>psql\<close> ends with the
  given status and error text.
\<close>

definition sample_proc :: "int \<Rightarrow> string \<Rightarrow> proc" where
  "sample_proc rc err cmd env fs =
     (if hd cmd = ''pg_dump'' then (0, ''CREATE TABLE roles ();'', []) else (rc, [], err))"

text \<open>
  A dump on a system that ends lines otherwise: it writes \<^verbatim>\<open>A\<close>, carriage return, line
  feed, \<^verbatim>\<open>B\<close>, carriage return, \<^verbatim>\<open>C\<close>, line feed.
\<close>

definition crlf_proc :: proc where
  "crlf_proc cmd env fs =
     (0, [CHR ''A'', CHR 0x0D, CHR 0x0A, CHR ''B'', CHR 0x0D, CHR ''C'', CHR 0x0A], [])"

definition sample_world :: world where
  "sample_world =
     \<lparr>environ = [''PATH'' \<mapsto> ''/usr/bin''], objs = [], files = Map.empty, events = []\<rparr>"

text \<open>
  The trace of \<^verbatim>\<open>main\<close> up to the prompt, and the trace after a confirmed prompt.
\<close>

definition head_events :: "proc \<Rightarrow> world \<Rightarrow> event list" where
  "head_events proc w =
     [Print (replicate 60 CHR ''=''),
      Print ''PREPROD DATABASE MIGRATION'',
      Print (replicate 60 CHR ''=''),
      Print (CHR 0x0A # ''[Step 1] Exporting schema from source database...''),
      Run (pg_dump_schema_cmd None False) (child_env w),
      Open_w ''preprod_schema_export.sql'',
      Write ''preprod_schema_export.sql'' (dump_out proc w),
      Print (''Schema exported to preprod_schema_export.sql (''
             @ str_of_nat (length (dump_out proc w)) @ '' bytes)''),
      Print (CHR 0x0A # ''[Step 2] This will apply schema to target database.''),
      Print (''Target: '' @ TARGET_HOST @ '' / '' @ TARGET_USER),
      Input ''Continue? (yes/no): '']"

definition tail_events :: "proc \<Rightarrow> world \<Rightarrow> event list" where
  "tail_events proc w =
     Run apply_cmd (child_env w)
     # (if fst (apply_result proc w) = 0
        then [Print ''Schema applied successfully!'']
        else [Print ''Schema application had issues:'',
              Print (if snd (snd (apply_result proc w)) = [] then ''No error output''
                     else take 2000 (snd (snd (apply_result proc w))))])
     @ [Print (CHR 0x0A # ''[Step 3] Migration complete!''),
        Print (CHR 0x0A # ''Next steps:''),
        Print ''1. Migrate admin user manually'',
        Print ''2. Update preprod environment variables'',
        Print ''3. Test login functionality'']"

section \<open>The helpers, executed\<close>

lemma child_env_upd [simp]:
  "child_env (w\<lparr>events := es\<rparr>) = child_env w"
  "child_env (w\<lparr>objs := os\<rparr>) = child_env w"
  "child_env (w\<lparr>files := fs\<rparr>) = child_env w"
  by (simp_all add: child_env_def)

lemma print_sel [simp]:
  "events (print s w) = events w @ [Print s]"
  "objs (print s w) = objs w"
  "files (print s w) = files w"
  "environ (print s w) = environ w"
  "child_env (print s w) = child_env w"
  by (simp_all add: print_def)

lemma subprocess_run_eq:
  "subprocess_run proc cmd env c w =
     (\<lparr>returncode = fst (proc cmd (deref env w) (files w)),
       stdout = (if c then Some (universal_newlines (fst (snd (proc cmd (deref env w) (files w)))))
                 else None),
       stderr = (if c then Some (universal_newlines (snd (snd (proc cmd (deref env w) (files w)))))
                 else None)\<rparr>,
      w\<lparr>events := events w @ [Run cmd (deref env w)]\<rparr>)"
  by (simp add: subprocess_run_def split: prod.splits)

lemma pg_dump_schema_eq:
  "pg_dump_schema proc tables include_data w =
     (Some (universal_newlines
              (fst (snd (proc (pg_dump_schema_cmd tables include_data) (child_env w) (files w))))),
      w\<lparr>objs := objs w @ [child_env w],
        events := events w @ [Run (pg_dump_schema_cmd tables include_data) (child_env w)]\<rparr>)"
  by (simp add: pg_dump_schema_def subprocess_run_eq child_env_def dict_copy_def dict_setitem_def
        deref_def Let_def)

lemma run_psql_file_eq:
  "run_psql_file proc host user db filename w =
     (\<lparr>returncode = fst (proc (run_psql_file_cmd host user db filename) (child_env w) (files w)),
       stdout = Some (universal_newlines
                 (fst (snd (proc (run_psql_file_cmd host user db filename) (child_env w) (files w))))),
       stderr = Some (universal_newlines
                 (snd (snd (proc (run_psql_file_cmd host user db filename) (child_env w) (files w)))))\<rparr>,
      w\<lparr>objs := objs w @ [child_env w],
        events := events w @ [Run (run_psql_file_cmd host user db filename) (child_env w)]\<rparr>)"
  by (simp add: run_psql_file_def subprocess_run_eq child_env_def dict_copy_def dict_setitem_def
        deref_def Let_def)

lemma run_psql_world:
  "snd (run_psql proc host user db sql c w) =
     w\<lparr>objs := objs w @ [child_env w],
       events := events w @ Run (run_psql_cmd host user db sql) (child_env w)
         # (if fst (proc (run_psql_cmd host user db sql) (child_env w) (files w)) \<noteq> 0
            then [Print (''Error: '' @ (if c then universal_newlines
                                                  (snd (snd (proc (run_psql_cmd host user db sql)
                                                     (child_env w) (files w))))
                                      else ''None''))]
            else [])\<rparr>"
  by (simp add: run_psql_def subprocess_run_eq child_env_def dict_copy_def dict_setitem_def
        deref_def Let_def print_def fmt_def)

section \<open>The main flow, executed\<close>

lemma hd_pg_dump_schema_cmd: "hd (pg_dump_schema_cmd tables include_data) = ''pg_dump''"
  by (simp add: pg_dump_schema_cmd_def)

lemma hd_apply_cmd: "hd apply_cmd = ''psql''"
  by (simp add: apply_cmd_def run_psql_file_cmd_def)

lemma main_result: "fst (main proc line w) = Inr ()"
  by (simp add: main_def pg_dump_schema_eq run_psql_file_eq f_write_def
        len_def input_def Let_def split: prod.splits)

lemma main_events:
  "events (snd (main proc line w)) =
     events w @ head_events proc w
     @ (if lower line = ''yes'' then tail_events proc w else [Print ''Aborted.''])"
  by (simp add: main_def pg_dump_schema_eq run_psql_file_eq open_w_def f_write_def
        len_def input_def dump_out_def head_events_def tail_events_def apply_result_def
        apply_cmd_def Let_def)

lemma main_files:
  "files (snd (main proc line w)) =
     (files w)(''preprod_schema_export.sql'' \<mapsto> dump_out proc w)"
  by (simp add: main_def pg_dump_schema_eq run_psql_file_eq open_w_def f_write_def
        len_def input_def dump_out_def Let_def)

lemma main_environ: "environ (snd (main proc line w)) = environ w"
  by (simp add: main_def pg_dump_schema_eq run_psql_file_eq open_w_def f_write_def
        len_def input_def Let_def)

lemma main_objs:
  "objs (snd (main proc line w)) =
     objs w @ (if lower line = ''yes'' then [child_env w, child_env w] else [child_env w])"
  by (simp add: main_def pg_dump_schema_eq run_psql_file_eq open_w_def f_write_def
        len_def input_def Let_def)

lemma main_eq:
  "main proc line w =
     (Inr (),
      w\<lparr>objs := objs w @ (if lower line = ''yes'' then [child_env w, child_env w] else [child_env w]),
        files := (files w)(''preprod_schema_export.sql'' \<mapsto> dump_out proc w),
        events := events w @ head_events proc w
          @ (if lower line = ''yes'' then tail_events proc w else [Print ''Aborted.''])\<rparr>)"
proof (rule prod_eqI)
  show "fst (main proc line w) = fst (Inr () :: exn + unit, w\<lparr>objs := objs w @ (if lower line = ''yes'' then [child_env w, child_env w] else [child_env w]),
        files := (files w)(''preprod_schema_export.sql'' \<mapsto> dump_out proc w),
        events := events w @ head_events proc w
          @ (if lower line = ''yes'' then tail_events proc w else [Print ''Aborted.''])\<rparr>)"
    by (simp add: main_result)
  show "snd (main proc line w) = snd (Inr () :: exn + unit, w\<lparr>objs := objs w @ (if lower line = ''yes'' then [child_env w, child_env w] else [child_env w]),
        files := (files w)(''preprod_schema_export.sql'' \<mapsto> dump_out proc w),
        events := events w @ head_events proc w
          @ (if lower line = ''yes'' then tail_events proc w else [Print ''Aborted.''])\<rparr>)"
    by (rule world.equality) (simp_all add: main_events main_files main_environ main_objs)
qed

lemma new_events_eq:
  "new_events proc line w =
     head_events proc w @ (if lower line = ''yes'' then tail_events proc w else [Print ''Aborted.''])"
  by (simp add: new_events_def main_events)


section \<open>The confirmation gate\<close>

lemma lower_char_eq_iff:
  assumes "97 \<le> (of_char d :: nat)" "(of_char d :: nat) \<le> 122"
  shows "lower_char c = d \<longleftrightarrow> c = d \<or> (of_char c :: nat) + 32 = of_char d"
proof (cases "(65 \<le> (of_char c :: nat) \<and> (of_char c :: nat) \<le> 90)
    \<or> (192 \<le> (of_char c :: nat) \<and> (of_char c :: nat) \<le> 222 \<and> (of_char c :: nat) \<noteq> 215)")
  case True
  then have l: "lower_char c = char_of ((of_char c :: nat) + 32)"
    by (simp add: lower_char_def Let_def)
  have "char_of ((of_char c :: nat) + 32) = d \<longleftrightarrow> (of_char c :: nat) + 32 = of_char d"
  proof
    assume "char_of ((of_char c :: nat) + 32) = d"
    then have "(of_char (char_of ((of_char c :: nat) + 32)) :: nat) = of_char d"
      by simp
    moreover have "((of_char c :: nat) + 32) mod 256 = of_char c + 32"
      using True by auto
    ultimately show "(of_char c :: nat) + 32 = of_char d"
      by (simp only: of_char_of)
  next
    assume "(of_char c :: nat) + 32 = of_char d"
    then show "char_of ((of_char c :: nat) + 32) = d"
      by simp
  qed
  moreover have "c \<noteq> d"
    using True assms by auto
  ultimately show ?thesis
    using l by simp
next
  case False
  then have l: "lower_char c = c"
    by (auto simp add: lower_char_def Let_def)
  have "(of_char c :: nat) + 32 \<noteq> of_char d"
    using False assms by auto
  then show ?thesis
    using l by simp
qed

lemma lower_char_y: "lower_char c = CHR ''y'' \<longleftrightarrow> c = CHR ''y'' \<or> c = CHR ''Y''"
proof -
  have "(of_char c :: nat) + 32 = of_char CHR ''y'' \<longleftrightarrow> c = CHR ''Y''"
  proof
    assume "(of_char c :: nat) + 32 = of_char CHR ''y''"
    then have "(of_char c :: nat) = of_char CHR ''Y''" by simp
    then show "c = CHR ''Y''" by (simp only: of_char_eq_iff)
  qed simp
  then show ?thesis
    using lower_char_eq_iff [of "CHR ''y''" c] by simp
qed

lemma lower_char_e: "lower_char c = CHR ''e'' \<longleftrightarrow> c = CHR ''e'' \<or> c = CHR ''E''"
proof -
  have "(of_char c :: nat) + 32 = of_char CHR ''e'' \<longleftrightarrow> c = CHR ''E''"
  proof
    assume "(of_char c :: nat) + 32 = of_char CHR ''e''"
    then have "(of_char c :: nat) = of_char CHR ''E''" by simp
    then show "c = CHR ''E''" by (simp only: of_char_eq_iff)
  qed simp
  then show ?thesis
    using lower_char_eq_iff [of "CHR ''e''" c] by simp
qed

lemma lower_char_s: "lower_char c = CHR ''s'' \<longleftrightarrow> c = CHR ''s'' \<or> c = CHR ''S''"
proof -
  have "(of_char c :: nat) + 32 = of_char CHR ''s'' \<longleftrightarrow> c = CHR ''S''"
  proof
    assume "(of_char c :: nat) + 32 = of_char CHR ''s''"
    then have "(of_char c :: nat) = of_char CHR ''S''" by simp
    then show "c = CHR ''S''" by (simp only: of_char_eq_iff)
  qed simp
  then show ?thesis
    using lower_char_eq_iff [of "CHR ''s''" c] by simp
qed

lemma lower_yes_iff: "lower s = ''yes'' \<longleftrightarrow> s \<in> set yes_spellings"
proof
  assume a: "lower s = ''yes''"
  then have "length s = length ''yes''"
    by (metis length_map lower_def)
  then obtain a b c where s: "s = [a, b, c]"
    by (auto simp add: length_Suc_conv)
  with a have "lower_char a = CHR ''y''" "lower_char b = CHR ''e''" "lower_char c = CHR ''s''"
    by (simp_all add: lower_def)
  then have "(a = CHR ''y'' \<or> a = CHR ''Y'') \<and> (b = CHR ''e'' \<or> b = CHR ''E'')
      \<and> (c = CHR ''s'' \<or> c = CHR ''S'')"
    by (simp only: lower_char_y lower_char_e lower_char_s)
  with s show "s \<in> set yes_spellings"
    by (auto simp add: yes_spellings_def)
next
  assume "s \<in> set yes_spellings"
  then show "lower s = ''yes''"
    by (auto simp add: yes_spellings_def lower_def lower_char_y lower_char_e lower_char_s)
qed

lemma after_input_head:
  "after_input (head_events proc w @ es) = es"
  by (simp add: after_input_def head_events_def)

lemma runs_append: "runs (es @ fs) = runs es @ runs fs"
  by (induction es rule: runs.induct) simp_all

lemma runs_head: "runs (head_events proc w) = [(pg_dump_schema_cmd None False, child_env w)]"
  by (simp add: head_events_def)

lemma runs_tail: "runs (tail_events proc w) = [(apply_cmd, child_env w)]"
  by (simp add: tail_events_def runs_append)

lemma runs_new_events:
  "runs (new_events proc line w) =
     (pg_dump_schema_cmd None False, child_env w)
     # (if lower line = ''yes'' then [(apply_cmd, child_env w)] else [])"
  by (simp add: new_events_eq runs_append runs_head runs_tail)

text \<open>
  C1, as stated, says that an input other than yes leaves no further effect. At the input
  \<^verbatim>\<open>no\<close> the script still prints a line after the prompt.
\<close>

theorem decline_still_prints_counterexample:
  "lower ''no'' \<noteq> ''yes'' \<and>
   after_input (new_events (sample_proc 0 []) ''no'' sample_world) = [Print ''Aborted.'']"
  by (simp add: new_events_eq after_input_head lower_yes_iff yes_spellings_def)

text \<open>
  C1, amended. The input passes the gate exactly when it is one of the eight spellings of
  yes in upper and lower case; then the apply command is run after the dump. For every
  other input, also one with spaces around the word, \<^verbatim>\<open>main\<close> returns without an
  exception, the only event after the prompt is the printing of \<^verbatim>\<open>Aborted.\<close>, and the
  dump is the only subprocess of the run.
\<close>

theorem confirmation_gate:
  "(lower line = ''yes'') = (line \<in> set yes_spellings) \<and>
   (lower line = ''yes'' \<longrightarrow>
      map fst (runs (new_events proc line w)) = [pg_dump_schema_cmd None False, apply_cmd]) \<and>
   (lower line \<noteq> ''yes'' \<longrightarrow>
      fst (main proc line w) = Inr () \<and>
      after_input (new_events proc line w) = [Print ''Aborted.''] \<and>
      map fst (runs (new_events proc line w)) = [pg_dump_schema_cmd None False])"
proof -
  have cmds: "map fst (runs (new_events proc line w)) =
      pg_dump_schema_cmd None False # (if lower line = ''yes'' then [apply_cmd] else [])"
    by (simp add: runs_new_events)
  have rest: "after_input (new_events proc line w) =
      (if lower line = ''yes'' then tail_events proc w else [Print ''Aborted.''])"
    by (simp only: new_events_eq after_input_head)
  show ?thesis
    by (simp add: lower_yes_iff cmds rest main_result)
qed

theorem confirmation_gate_witness:
  "lower ''YeS'' = ''yes'' \<and> lower '' yes'' \<noteq> ''yes'' \<and>
   map fst (runs (new_events (sample_proc 0 []) ''YeS'' sample_world))
     = [pg_dump_schema_cmd None False, apply_cmd] \<and>
   after_input (new_events (sample_proc 0 []) '' yes'' sample_world) = [Print ''Aborted.''] \<and>
   map fst (runs (new_events (sample_proc 0 []) '' yes'' sample_world))
     = [pg_dump_schema_cmd None False]"
proof -
  have y: "lower ''YeS'' = ''yes''" by (simp add: lower_yes_iff yes_spellings_def)
  have n: "lower '' yes'' \<noteq> ''yes''" by (simp add: lower_yes_iff yes_spellings_def)
  show ?thesis
    using y n confirmation_gate [of "''YeS''" "sample_proc 0 []" sample_world]
      confirmation_gate [of "'' yes''" "sample_proc 0 []" sample_world]
    by simp
qed


section \<open>The dump command\<close>

lemma pg_dump_schema_cmd_default:
  "pg_dump_schema_cmd None False =
     [''pg_dump'', ''-h'', SOURCE_HOST, ''-p'', SOURCE_PORT, ''-U'', SOURCE_USER,
      ''-d'', SOURCE_DB, ''--no-owner'', ''--no-acl'', ''-n'', ''public'', ''--schema-only'']"
  by (simp add: pg_dump_schema_cmd_def)

lemma no_filter_by_default: "''-t'' \<notin> set (pg_dump_schema_cmd None include_data)"
  by (simp add: pg_dump_schema_cmd_def SOURCE_HOST_def SOURCE_PORT_def SOURCE_USER_def
        SOURCE_DB_def)

lemma no_table_name_by_default:
  "''public.'' @ t \<notin> set (pg_dump_schema_cmd None include_data)"
  by (simp add: pg_dump_schema_cmd_def SOURCE_HOST_def SOURCE_PORT_def SOURCE_USER_def
        SOURCE_DB_def)

text \<open>
  C2. In every run the dump is started with the argument list that \<^verbatim>\<open>pg_dump_schema\<close>
  builds for \<^verbatim>\<open>tables=None\<close>: the fixed flags with \<^verbatim>\<open>-n public\<close> and
  \<^verbatim>\<open>--schema-only\<close>. It holds no \<^verbatim>\<open>-t\<close> and no name of \<^verbatim>\<open>REQUIRED_TABLES\<close>, and
  it is not the list that passing \<^verbatim>\<open>REQUIRED_TABLES\<close> would give. No other command of the
  run is a dump: the only other one, after a confirmed prompt, is \<^verbatim>\<open>psql\<close>.
\<close>

theorem dump_ignores_required_tables:
  "map fst (runs (new_events proc line w)) =
     pg_dump_schema_cmd None False # (if lower line = ''yes'' then [apply_cmd] else []) \<and>
   hd apply_cmd = ''psql'' \<and>
   pg_dump_schema_cmd None False =
     [''pg_dump'', ''-h'', SOURCE_HOST, ''-p'', SOURCE_PORT, ''-U'', SOURCE_USER,
      ''-d'', SOURCE_DB, ''--no-owner'', ''--no-acl'', ''-n'', ''public'', ''--schema-only''] \<and>
   ''-t'' \<notin> set (pg_dump_schema_cmd None False) \<and>
   set (map ((@) ''public.'') REQUIRED_TABLES) \<inter> set (pg_dump_schema_cmd None False) = {} \<and>
   pg_dump_schema_cmd (Some REQUIRED_TABLES) False \<noteq> pg_dump_schema_cmd None False"
proof -
  have cmds: "map fst (runs (new_events proc line w)) =
      pg_dump_schema_cmd None False # (if lower line = ''yes'' then [apply_cmd] else [])"
    by (simp add: runs_new_events)
  have psql: "hd apply_cmd = ''psql''"
    by (simp add: apply_cmd_def run_psql_file_cmd_def)
  have names: "set (map ((@) ''public.'') REQUIRED_TABLES) \<inter> set (pg_dump_schema_cmd None False) = {}"
    using no_table_name_by_default [of _ False] by auto
  have "length (pg_dump_schema_cmd (Some REQUIRED_TABLES) False) \<noteq> length (pg_dump_schema_cmd None False)"
    by (simp add: pg_dump_schema_cmd_def REQUIRED_TABLES_def)
  then have differ: "pg_dump_schema_cmd (Some REQUIRED_TABLES) False \<noteq> pg_dump_schema_cmd None False"
    by metis
  show ?thesis
    using cmds psql names differ pg_dump_schema_cmd_default no_filter_by_default [of False]
    by blast
qed

theorem dump_ignores_required_tables_witness:
  "map fst (runs (new_events (sample_proc 0 []) ''yes'' sample_world)) =
     [pg_dump_schema_cmd None False, apply_cmd] \<and>
   ''-t'' \<notin> set (pg_dump_schema_cmd None False)"
proof -
  note t = dump_ignores_required_tables [of "sample_proc 0 []" "''yes''" sample_world]
  have y: "lower ''yes'' = ''yes''"
    by (simp add: lower_yes_iff yes_spellings_def)
  from t have "map fst (runs (new_events (sample_proc 0 []) ''yes'' sample_world)) =
      pg_dump_schema_cmd None False # (if lower ''yes'' = ''yes'' then [apply_cmd] else [])"
    by (rule conjunct1)
  with y have a: "map fst (runs (new_events (sample_proc 0 []) ''yes'' sample_world)) =
      [pg_dump_schema_cmd None False, apply_cmd]"
    by simp
  from t have b: "''-t'' \<notin> set (pg_dump_schema_cmd None False)"
    by blast
  from a b show ?thesis
    by (rule conjI)
qed

section \<open>After the prompt\<close>

lemma after_input_new_events:
  "after_input (new_events proc line w) =
     (if lower line = ''yes'' then tail_events proc w else [Print ''Aborted.''])"
  by (simp only: new_events_eq after_input_head)

lemma drop_to_suffix: "drop (length (xs @ ys) - length ys) (xs @ ys) = ys"
  by simp

lemma last_five_of_tail:
  "drop (length (hs @ tail_events proc w) - 5) (hs @ tail_events proc w) =
     [Print (CHR 0x0A # ''[Step 3] Migration complete!''),
      Print (CHR 0x0A # ''Next steps:''),
      Print ''1. Migrate admin user manually'',
      Print ''2. Update preprod environment variables'',
      Print ''3. Test login functionality'']"
proof -
  define finals where "finals =
     [Print (CHR 0x0A # ''[Step 3] Migration complete!''),
      Print (CHR 0x0A # ''Next steps:''),
      Print ''1. Migrate admin user manually'',
      Print ''2. Update preprod environment variables'',
      Print ''3. Test login functionality'']"
  define front where "front = hs @ Run apply_cmd (child_env w)
     # (if fst (apply_result proc w) = 0
        then [Print ''Schema applied successfully!'']
        else [Print ''Schema application had issues:'',
              Print (if snd (snd (apply_result proc w)) = [] then ''No error output''
                     else take 2000 (snd (snd (apply_result proc w))))])"
  have split: "hs @ tail_events proc w = front @ finals"
    by (simp add: tail_events_def front_def finals_def)
  have five: "length finals = 5"
    by (simp add: finals_def)
  have "drop (length (front @ finals) - length finals) (front @ finals) = finals"
    by (rule drop_to_suffix)
  then show ?thesis
    by (simp only: split five) (simp add: finals_def)
qed

lemma non_prints_of_tail:
  "filter (\<lambda>e. \<not> is_print e) (tail_events proc w) = [Run apply_cmd (child_env w)]"
  by (simp add: tail_events_def)

text \<open>
  C3. After a confirmed prompt, whatever the process table answers for the apply command,
  so for every exit status of \<^verbatim>\<open>psql\<close>, zero or not: \<^verbatim>\<open>main\<close> returns without an
  exception; the last five events of the run are the prints of
  \<^verbatim>\<open>[Step 3] Migration complete!\<close> and of the next steps; after the prompt nothing
  happens but the one apply invocation and prints; and the run has two subprocesses, the
  dump and the apply, so nothing is retried or undone.
\<close>

theorem apply_status_never_stops_main:
  assumes "lower line = ''yes''"
  shows "fst (main proc line w) = Inr () \<and>
    drop (length (new_events proc line w) - 5) (new_events proc line w) =
      [Print (CHR 0x0A # ''[Step 3] Migration complete!''),
       Print (CHR 0x0A # ''Next steps:''),
       Print ''1. Migrate admin user manually'',
       Print ''2. Update preprod environment variables'',
       Print ''3. Test login functionality''] \<and>
    filter (\<lambda>e. \<not> is_print e) (after_input (new_events proc line w)) =
      [Run apply_cmd (child_env w)] \<and>
    map fst (runs (new_events proc line w)) = [pg_dump_schema_cmd None False, apply_cmd]"
proof -
  have ev: "new_events proc line w = head_events proc w @ tail_events proc w"
    using assms by (simp add: new_events_eq)
  have a: "fst (main proc line w) = Inr ()"
    by (rule main_result)
  have b: "drop (length (new_events proc line w) - 5) (new_events proc line w) =
      [Print (CHR 0x0A # ''[Step 3] Migration complete!''),
       Print (CHR 0x0A # ''Next steps:''),
       Print ''1. Migrate admin user manually'',
       Print ''2. Update preprod environment variables'',
       Print ''3. Test login functionality'']"
    by (simp only: ev last_five_of_tail)
  have c: "filter (\<lambda>e. \<not> is_print e) (after_input (new_events proc line w)) =
      [Run apply_cmd (child_env w)]"
    using assms by (simp add: after_input_new_events non_prints_of_tail)
  have d: "map fst (runs (new_events proc line w)) = [pg_dump_schema_cmd None False, apply_cmd]"
    using assms by (simp add: runs_new_events)
  from a b c d show ?thesis
    by blast
qed

theorem apply_status_never_stops_main_witness:
  "lower ''yes'' = ''yes'' \<and>
   fst (apply_result (sample_proc 1 ''ERROR:  relation exists'') sample_world) \<noteq> 0 \<and>
   fst (main (sample_proc 1 ''ERROR:  relation exists'') ''yes'' sample_world) = Inr () \<and>
   drop (length (new_events (sample_proc 1 ''ERROR:  relation exists'') ''yes'' sample_world) - 5)
     (new_events (sample_proc 1 ''ERROR:  relation exists'') ''yes'' sample_world) =
      [Print (CHR 0x0A # ''[Step 3] Migration complete!''),
       Print (CHR 0x0A # ''Next steps:''),
       Print ''1. Migrate admin user manually'',
       Print ''2. Update preprod environment variables'',
       Print ''3. Test login functionality'']"
proof -
  have y: "lower ''yes'' = ''yes''"
    by (simp add: lower_yes_iff yes_spellings_def)
  have n: "fst (apply_result (sample_proc 1 ''ERROR:  relation exists'') sample_world) \<noteq> 0"
    by (simp add: apply_result_def sample_proc_def hd_apply_cmd Let_def)
  from y n apply_status_never_stops_main [of "''yes''" "sample_proc 1 ''ERROR:  relation exists''"
      sample_world]
  show ?thesis
    by blast
qed

section \<open>The export step\<close>

lemma dump_out_set_dump_status: "dump_out (set_dump_status rc err proc) w = dump_out proc w"
  by (simp add: dump_out_def set_dump_status_def hd_pg_dump_schema_cmd)

lemma apply_result_set_dump_status:
  "apply_result (set_dump_status rc err proc) w = apply_result proc w"
  by (simp add: apply_result_def set_dump_status_def hd_apply_cmd dump_out_set_dump_status
        Let_def)

lemma head_events_set_dump_status:
  "head_events (set_dump_status rc err proc) w = head_events proc w"
  by (simp add: head_events_def dump_out_set_dump_status)

lemma tail_events_set_dump_status:
  "tail_events (set_dump_status rc err proc) w = tail_events proc w"
  by (simp add: tail_events_def apply_result_set_dump_status)

lemma main_set_dump_status: "main (set_dump_status rc err proc) line w = main proc line w"
  by (simp only: main_eq dump_out_set_dump_status head_events_set_dump_status
        tail_events_set_dump_status)

lemma pg_dump_schema_set_dump_status:
  "pg_dump_schema (set_dump_status rc err proc) tables include_data w =
     pg_dump_schema proc tables include_data w"
  by (simp add: pg_dump_schema_eq set_dump_status_def hd_pg_dump_schema_cmd)

text \<open>
  C4. \<^verbatim>\<open>pg_dump_schema\<close> returns the captured standard output of its subprocess, the
  text read from it in text mode, whatever the exit status. Changing the exit status and
  the error text of \<^verbatim>\<open>pg_dump\<close> changes neither the result and state of
  \<^verbatim>\<open>pg_dump_schema\<close> nor anything of a run of \<^verbatim>\<open>main\<close>, which returns normally with
  the output, empty or not, in the export file.
\<close>

theorem dump_status_never_inspected:
  "fst (pg_dump_schema proc tables include_data w) =
     Some (universal_newlines
             (fst (snd (proc (pg_dump_schema_cmd tables include_data) (child_env w) (files w))))) \<and>
   pg_dump_schema (set_dump_status rc err proc) tables include_data w =
     pg_dump_schema proc tables include_data w \<and>
   main (set_dump_status rc err proc) line w = main proc line w \<and>
   fst (main proc line w) = Inr () \<and>
   files (snd (main proc line w)) ''preprod_schema_export.sql'' = Some (dump_out proc w)"
proof -
  have "fst (pg_dump_schema proc tables include_data w) =
      Some (universal_newlines
              (fst (snd (proc (pg_dump_schema_cmd tables include_data) (child_env w) (files w)))))"
    by (simp add: pg_dump_schema_eq)
  moreover have "files (snd (main proc line w)) ''preprod_schema_export.sql'' =
      Some (dump_out proc w)"
    by (simp add: main_files)
  ultimately show ?thesis
    using pg_dump_schema_set_dump_status [of rc err proc tables include_data w]
      main_set_dump_status [of rc err proc line w] main_result [of proc line w]
    by blast
qed

theorem dump_status_never_inspected_witness:
  "set_dump_status 1 ''pg_dump: error: connection failed'' (sample_proc 0 [])
     (pg_dump_schema_cmd None False) (child_env sample_world) (files sample_world)
     = (1, ''CREATE TABLE roles ();'', ''pg_dump: error: connection failed'') \<and>
   main (set_dump_status 1 ''pg_dump: error: connection failed'' (sample_proc 0 [])) ''yes'' sample_world
     = main (sample_proc 0 []) ''yes'' sample_world \<and>
   fst (main (sample_proc 0 []) ''yes'' sample_world) = Inr ()"
proof -
  have s: "set_dump_status 1 ''pg_dump: error: connection failed'' (sample_proc 0 [])
     (pg_dump_schema_cmd None False) (child_env sample_world) (files sample_world)
     = (1, ''CREATE TABLE roles ();'', ''pg_dump: error: connection failed'')"
    by (simp add: set_dump_status_def sample_proc_def hd_pg_dump_schema_cmd)
  from s dump_status_never_inspected [of "sample_proc 0 []" None False sample_world 1
      "''pg_dump: error: connection failed''" "''yes''"]
  show ?thesis
    by blast
qed

lemma file_events_head:
  "filter is_file_event (head_events proc w) =
     [Open_w ''preprod_schema_export.sql'', Write ''preprod_schema_export.sql'' (dump_out proc w)]"
  by (simp add: head_events_def)

lemma file_events_tail: "filter is_file_event (tail_events proc w) = []"
  by (simp add: tail_events_def)

lemma universal_newlines_no_cr: "CHR 0x0D \<notin> set (universal_newlines s)"
  by (induction s rule: universal_newlines.induct) simp_all

lemma universal_newlines_id: "CHR 0x0D \<notin> set s \<Longrightarrow> universal_newlines s = s"
  by (induction s rule: universal_newlines.induct) auto

lemma universal_newlines_eq_iff: "(universal_newlines s = s) = (CHR 0x0D \<notin> set s)"
proof
  assume "universal_newlines s = s"
  then show "CHR 0x0D \<notin> set s"
    using universal_newlines_no_cr [of s] by simp
next
  assume "CHR 0x0D \<notin> set s"
  then show "universal_newlines s = s"
    by (rule universal_newlines_id)
qed

text \<open>
  C5, as stated, says that the file holds the output of the dump byte for byte, whatever
  the output. A dump that writes \<^verbatim>\<open>A\<close>, carriage return, line feed, \<^verbatim>\<open>B\<close>, carriage
  return, \<^verbatim>\<open>C\<close>, line feed leaves a file with \<^verbatim>\<open>A\<close>, line feed, \<^verbatim>\<open>B\<close>, line feed,
  \<^verbatim>\<open>C\<close>, line feed.
\<close>

theorem export_file_differs_from_dump_output_counterexample:
  "crlf_proc (pg_dump_schema_cmd None False) (child_env sample_world) (files sample_world) =
     (0, [CHR ''A'', CHR 0x0D, CHR 0x0A, CHR ''B'', CHR 0x0D, CHR ''C'', CHR 0x0A], []) \<and>
   files (snd (main crlf_proc ''no'' sample_world)) ''preprod_schema_export.sql'' =
     Some [CHR ''A'', CHR 0x0A, CHR ''B'', CHR 0x0A, CHR ''C'', CHR 0x0A] \<and>
   [CHR ''A'', CHR 0x0A, CHR ''B'', CHR 0x0A, CHR ''C'', CHR 0x0A] \<noteq>
     [CHR ''A'', CHR 0x0D, CHR 0x0A, CHR ''B'', CHR 0x0D, CHR ''C'', CHR 0x0A]"
  by (simp add: main_files dump_out_def crlf_proc_def)

text \<open>
  C5, amended. When the dump writes \<open>out\<close> to its standard output, the text captured
  from it, which \<^verbatim>\<open>pg_dump_schema\<close> returns, is \<open>out\<close> with every carriage return and
  line feed pair and every other carriage return turned into a line feed. The file
  \<^verbatim>\<open>preprod_schema_export.sql\<close> holds exactly this text at the end of the run, and the
  file events of the run are the opening of that file for writing and one write of this
  text to it. The text is \<open>out\<close> itself exactly when \<open>out\<close> has no carriage return.
\<close>

theorem export_file_holds_captured_text:
  assumes "proc (pg_dump_schema_cmd None False) (child_env w) (files w) = (rc, out, err)"
  shows "fst (pg_dump_schema proc None False w) = Some (universal_newlines out) \<and>
    files (snd (main proc line w)) ''preprod_schema_export.sql'' = Some (universal_newlines out) \<and>
    filter is_file_event (new_events proc line w) =
      [Open_w ''preprod_schema_export.sql'',
       Write ''preprod_schema_export.sql'' (universal_newlines out)] \<and>
    (universal_newlines out = out) = (CHR 0x0D \<notin> set out)"
proof -
  from assms have out: "dump_out proc w = universal_newlines out"
    by (simp add: dump_out_def)
  have a: "fst (pg_dump_schema proc None False w) = Some (universal_newlines out)"
    using assms by (simp add: pg_dump_schema_eq)
  have "files (snd (main proc line w)) ''preprod_schema_export.sql'' = Some (dump_out proc w)"
    by (simp add: main_files)
  then have b: "files (snd (main proc line w)) ''preprod_schema_export.sql'' =
      Some (universal_newlines out)"
    by (simp only: out)
  have "filter is_file_event (new_events proc line w) =
      [Open_w ''preprod_schema_export.sql'',
       Write ''preprod_schema_export.sql'' (dump_out proc w)]"
    by (simp add: new_events_eq file_events_head file_events_tail)
  then have c: "filter is_file_event (new_events proc line w) =
      [Open_w ''preprod_schema_export.sql'',
       Write ''preprod_schema_export.sql'' (universal_newlines out)]"
    by (simp only: out)
  from a b c universal_newlines_eq_iff [of out] show ?thesis
    by blast
qed

theorem export_file_holds_captured_text_witness:
  "sample_proc 0 [] (pg_dump_schema_cmd None False) (child_env sample_world) (files sample_world)
     = (0, ''CREATE TABLE roles ();'', []) \<and>
   CHR 0x0D \<notin> set ''CREATE TABLE roles ();'' \<and>
   files (snd (main (sample_proc 0 []) ''no'' sample_world)) ''preprod_schema_export.sql''
     = Some ''CREATE TABLE roles ();''"
proof -
  have s: "sample_proc 0 [] (pg_dump_schema_cmd None False) (child_env sample_world)
      (files sample_world) = (0, ''CREATE TABLE roles ();'', [])"
    by (simp add: sample_proc_def hd_pg_dump_schema_cmd)
  have n: "CHR 0x0D \<notin> set ''CREATE TABLE roles ();''"
    by simp
  note t = export_file_holds_captured_text [of "sample_proc 0 []" sample_world 0
      "''CREATE TABLE roles ();''" "[]" "''no''"]
  from s t have same: "(universal_newlines ''CREATE TABLE roles ();'' = ''CREATE TABLE roles ();'')
      = (CHR 0x0D \<notin> set ''CREATE TABLE roles ();'')"
    by blast
  from s t have "files (snd (main (sample_proc 0 []) ''no'' sample_world))
      ''preprod_schema_export.sql'' = Some (universal_newlines ''CREATE TABLE roles ();'')"
    by blast
  with same n have "files (snd (main (sample_proc 0 []) ''no'' sample_world))
      ''preprod_schema_export.sql'' = Some ''CREATE TABLE roles ();''"
    by (simp only: simp_thms)
  with s n show ?thesis
    by blast
qed

text \<open>
  C6. When the apply subprocess ends with a status other than zero and \<open>err\<close> is the text
  captured from its standard error, the events after the prompt are the apply invocation, the print of
  \<^verbatim>\<open>Schema application had issues:\<close>, the print of the first 2000 characters of
  \<open>err\<close>, or of \<^verbatim>\<open>No error output\<close> when \<open>err\<close> is empty, and the five final prints.
  The excerpt has at most 2000 characters and is \<open>err\<close> itself when \<open>err\<close> is that short.
\<close>

theorem apply_failure_prints_stderr_excerpt:
  assumes "lower line = ''yes''"
    and "apply_result proc w = (rc, out, err)"
    and "rc \<noteq> 0"
  shows "after_input (new_events proc line w) =
      [Run apply_cmd (child_env w),
       Print ''Schema application had issues:'',
       Print (if err = [] then ''No error output'' else take 2000 err),
       Print (CHR 0x0A # ''[Step 3] Migration complete!''),
       Print (CHR 0x0A # ''Next steps:''),
       Print ''1. Migrate admin user manually'',
       Print ''2. Update preprod environment variables'',
       Print ''3. Test login functionality''] \<and>
    length (take 2000 err) \<le> 2000 \<and>
    take 2000 err = (if length err \<le> 2000 then err else take 2000 err)"
proof -
  have "after_input (new_events proc line w) = tail_events proc w"
    using assms(1) by (simp add: after_input_new_events)
  then show ?thesis
    using assms(2,3) by (simp add: tail_events_def)
qed

theorem apply_failure_prints_stderr_excerpt_witness:
  "lower ''yes'' = ''yes'' \<and>
   apply_result (sample_proc 1 ''ERROR:  relation exists'') sample_world =
     (1, [], ''ERROR:  relation exists'') \<and>
   after_input (new_events (sample_proc 1 ''ERROR:  relation exists'') ''yes'' sample_world) =
      [Run apply_cmd (child_env sample_world),
       Print ''Schema application had issues:'',
       Print ''ERROR:  relation exists'',
       Print (CHR 0x0A # ''[Step 3] Migration complete!''),
       Print (CHR 0x0A # ''Next steps:''),
       Print ''1. Migrate admin user manually'',
       Print ''2. Update preprod environment variables'',
       Print ''3. Test login functionality'']"
proof -
  have y: "lower ''yes'' = ''yes''"
    by (simp add: lower_yes_iff yes_spellings_def)
  have r: "apply_result (sample_proc 1 ''ERROR:  relation exists'') sample_world =
      (1, [], ''ERROR:  relation exists'')"
    by (simp add: apply_result_def sample_proc_def hd_apply_cmd Let_def)
  have n: "(1::int) \<noteq> 0"
    by simp
  from y r n apply_failure_prints_stderr_excerpt [of "''yes''"
      "sample_proc 1 ''ERROR:  relation exists''" sample_world 1 "[]"
      "''ERROR:  relation exists''"]
  show ?thesis
    by simp
qed

section \<open>Environment and connection arguments\<close>

lemma pg_dump_schema_events:
  "events (snd (pg_dump_schema proc tables include_data w)) =
     events w @ [Run (pg_dump_schema_cmd tables include_data) (child_env w)]"
  by (simp add: pg_dump_schema_eq)

lemma run_psql_file_events:
  "events (snd (run_psql_file proc host user db filename w)) =
     events w @ [Run (run_psql_file_cmd host user db filename) (child_env w)]"
  by (simp add: run_psql_file_eq)

lemma run_psql_runs:
  "runs (events (snd (run_psql proc host user db sql c w))) =
     runs (events w) @ [(run_psql_cmd host user db sql, child_env w)]"
  by (simp add: run_psql_world runs_append)

lemma helpers_keep_environ:
  "environ (snd (pg_dump_schema proc tables include_data w)) = environ w"
  "environ (snd (run_psql proc host user db sql c w)) = environ w"
  "environ (snd (run_psql_file proc host user db filename w)) = environ w"
  by (simp_all add: pg_dump_schema_eq run_psql_world run_psql_file_eq)

text \<open>
  C7, as stated, says that the connection arguments of every invocation through a helper
  are the constants of the module. \<^verbatim>\<open>run_psql_file\<close> called with another host, user and
  database starts \<^verbatim>\<open>psql\<close> with these.
\<close>

theorem helper_connection_counterexample:
  "map fst (runs (events (snd (run_psql_file (sample_proc 0 []) ''localhost'' ''alice'' ''testdb''
       ''x.sql'' sample_world)))) =
     [[''psql'', ''-h'', ''localhost'', ''-p'', ''5432'', ''-U'', ''alice'', ''-d'', ''testdb'',
       ''-f'', ''x.sql'']] \<and>
   ''localhost'' \<noteq> SOURCE_HOST \<and> ''localhost'' \<noteq> TARGET_HOST \<and>
   ''alice'' \<noteq> SOURCE_USER \<and> ''alice'' \<noteq> TARGET_USER \<and>
   ''testdb'' \<noteq> SOURCE_DB \<and> ''testdb'' \<noteq> TARGET_DB"
  by (simp add: run_psql_file_events runs_append sample_world_def run_psql_file_cmd_def
        SOURCE_HOST_def TARGET_HOST_def SOURCE_USER_def TARGET_USER_def SOURCE_DB_def
        TARGET_DB_def)

text \<open>
  C7, amended. Each of the three helpers starts one subprocess, whose environment is the
  parent's environment with \<^verbatim>\<open>PGPASSWORD\<close> set to \<^verbatim>\<open>PASSWORD\<close>, and leaves the parent's
  own environment as it was; so does \<^verbatim>\<open>main\<close>. The dump connects with the
  \<^verbatim>\<open>SOURCE\<close> constants. The two \<^verbatim>\<open>psql\<close> helpers pass the port \<^verbatim>\<open>5432\<close> and the host,
  user and database of their caller; in \<^verbatim>\<open>main\<close> these are the \<^verbatim>\<open>TARGET\<close> constants.
\<close>

theorem child_environment_and_connection:
  "runs (events (snd (pg_dump_schema proc tables include_data w))) =
     runs (events w) @ [(pg_dump_schema_cmd tables include_data,
                         (environ w)(''PGPASSWORD'' \<mapsto> PASSWORD))] \<and>
   runs (events (snd (run_psql proc host user db sql c w))) =
     runs (events w) @ [([''psql'', ''-h'', host, ''-p'', ''5432'', ''-U'', user, ''-d'', db,
                          ''--set'', ''ON_ERROR_STOP=on'', ''-c'', sql],
                         (environ w)(''PGPASSWORD'' \<mapsto> PASSWORD))] \<and>
   runs (events (snd (run_psql_file proc host user db filename w))) =
     runs (events w) @ [([''psql'', ''-h'', host, ''-p'', ''5432'', ''-U'', user, ''-d'', db,
                          ''-f'', filename],
                         (environ w)(''PGPASSWORD'' \<mapsto> PASSWORD))] \<and>
   take 9 (pg_dump_schema_cmd tables include_data) =
     [''pg_dump'', ''-h'', SOURCE_HOST, ''-p'', SOURCE_PORT, ''-U'', SOURCE_USER,
      ''-d'', SOURCE_DB] \<and>
   runs (new_events proc line w) =
     (pg_dump_schema_cmd None False, (environ w)(''PGPASSWORD'' \<mapsto> PASSWORD))
     # (if lower line = ''yes''
        then [([''psql'', ''-h'', TARGET_HOST, ''-p'', TARGET_PORT, ''-U'', TARGET_USER,
                ''-d'', TARGET_DB, ''-f'', ''preprod_schema_export.sql''],
               (environ w)(''PGPASSWORD'' \<mapsto> PASSWORD))]
        else []) \<and>
   environ (snd (pg_dump_schema proc tables include_data w)) = environ w \<and>
   environ (snd (run_psql proc host user db sql c w)) = environ w \<and>
   environ (snd (run_psql_file proc host user db filename w)) = environ w \<and>
   environ (snd (main proc line w)) = environ w"
proof -
  have a: "runs (events (snd (pg_dump_schema proc tables include_data w))) =
     runs (events w) @ [(pg_dump_schema_cmd tables include_data,
                         (environ w)(''PGPASSWORD'' \<mapsto> PASSWORD))]"
    by (simp add: pg_dump_schema_events runs_append child_env_def)
  have b: "runs (events (snd (run_psql proc host user db sql c w))) =
     runs (events w) @ [([''psql'', ''-h'', host, ''-p'', ''5432'', ''-U'', user, ''-d'', db,
                          ''--set'', ''ON_ERROR_STOP=on'', ''-c'', sql],
                         (environ w)(''PGPASSWORD'' \<mapsto> PASSWORD))]"
    by (simp add: run_psql_runs run_psql_cmd_def child_env_def)
  have c: "runs (events (snd (run_psql_file proc host user db filename w))) =
     runs (events w) @ [([''psql'', ''-h'', host, ''-p'', ''5432'', ''-U'', user, ''-d'', db,
                          ''-f'', filename],
                         (environ w)(''PGPASSWORD'' \<mapsto> PASSWORD))]"
    by (simp add: run_psql_file_events runs_append run_psql_file_cmd_def child_env_def)
  have d: "take 9 (pg_dump_schema_cmd tables include_data) =
     [''pg_dump'', ''-h'', SOURCE_HOST, ''-p'', SOURCE_PORT, ''-U'', SOURCE_USER,
      ''-d'', SOURCE_DB]"
    by (simp add: pg_dump_schema_cmd_def)
  have e: "runs (new_events proc line w) =
     (pg_dump_schema_cmd None False, (environ w)(''PGPASSWORD'' \<mapsto> PASSWORD))
     # (if lower line = ''yes''
        then [([''psql'', ''-h'', TARGET_HOST, ''-p'', TARGET_PORT, ''-U'', TARGET_USER,
                ''-d'', TARGET_DB, ''-f'', ''preprod_schema_export.sql''],
               (environ w)(''PGPASSWORD'' \<mapsto> PASSWORD))]
        else [])"
    by (simp add: runs_new_events apply_cmd_def run_psql_file_cmd_def TARGET_PORT_def
        child_env_def)
  from a b c d e helpers_keep_environ main_environ [of proc line w]
  show ?thesis
    by blast
qed

theorem child_environment_and_connection_witness:
  "lower ''yes'' = ''yes'' \<and>
   runs (new_events (sample_proc 0 []) ''yes'' sample_world) =
     [(pg_dump_schema_cmd None False, (environ sample_world)(''PGPASSWORD'' \<mapsto> PASSWORD)),
      ([''psql'', ''-h'', TARGET_HOST, ''-p'', TARGET_PORT, ''-U'', TARGET_USER,
        ''-d'', TARGET_DB, ''-f'', ''preprod_schema_export.sql''],
       (environ sample_world)(''PGPASSWORD'' \<mapsto> PASSWORD))] \<and>
   environ (snd (main (sample_proc 0 []) ''yes'' sample_world)) = environ sample_world"
proof -
  have y: "lower ''yes'' = ''yes''"
    by (simp add: lower_yes_iff yes_spellings_def)
  note t = child_environment_and_connection [of "sample_proc 0 []" None False sample_world
      "''h''" "''u''" "''d''" "''s''" True "''f''" "''yes''"]
  from t have "runs (new_events (sample_proc 0 []) ''yes'' sample_world) =
     (pg_dump_schema_cmd None False, (environ sample_world)(''PGPASSWORD'' \<mapsto> PASSWORD))
     # (if lower ''yes'' = ''yes''
        then [([''psql'', ''-h'', TARGET_HOST, ''-p'', TARGET_PORT, ''-U'', TARGET_USER,
                ''-d'', TARGET_DB, ''-f'', ''preprod_schema_export.sql''],
               (environ sample_world)(''PGPASSWORD'' \<mapsto> PASSWORD))]
        else [])"
    by blast
  with y have a: "runs (new_events (sample_proc 0 []) ''yes'' sample_world) =
     [(pg_dump_schema_cmd None False, (environ sample_world)(''PGPASSWORD'' \<mapsto> PASSWORD)),
      ([''psql'', ''-h'', TARGET_HOST, ''-p'', TARGET_PORT, ''-U'', TARGET_USER,
        ''-d'', TARGET_DB, ''-f'', ''preprod_schema_export.sql''],
       (environ sample_world)(''PGPASSWORD'' \<mapsto> PASSWORD))]"
    by simp
  from t have b: "environ (snd (main (sample_proc 0 []) ''yes'' sample_world)) = environ sample_world"
    by blast
  from y a b show ?thesis
    by blast
qed

section \<open>The order of the steps\<close>

lemma non_prints_of_head:
  "filter (\<lambda>e. \<not> is_print e) (head_events proc w) =
     [Run (pg_dump_schema_cmd None False) (child_env w),
      Open_w ''preprod_schema_export.sql'',
      Write ''preprod_schema_export.sql'' (dump_out proc w),
      Input ''Continue? (yes/no): '']"
  by (simp add: head_events_def)

text \<open>
  C8. Every run of \<^verbatim>\<open>main\<close> returns normally, and its events other than prints are,
  in this order: the dump invocation, the opening and the writing of the export file, the
  prompt and, only after a confirmed prompt, one apply invocation whose \<^verbatim>\<open>-f\<close> argument
  is the export file. After a confirmed prompt come the apply invocation, its report and
  the five final prints, where the apply answers on a file system in which the export file
  holds the captured dump output; after any other input comes \<^verbatim>\<open>Aborted.\<close> alone.
\<close>

theorem steps_in_program_order:
  "fst (main proc line w) = Inr () \<and>
   filter (\<lambda>e. \<not> is_print e) (new_events proc line w) =
     [Run (pg_dump_schema_cmd None False) (child_env w),
      Open_w ''preprod_schema_export.sql'',
      Write ''preprod_schema_export.sql'' (dump_out proc w),
      Input ''Continue? (yes/no): '']
     @ (if lower line = ''yes''
        then [Run [''psql'', ''-h'', TARGET_HOST, ''-p'', ''5432'', ''-U'', TARGET_USER,
                   ''-d'', TARGET_DB, ''-f'', ''preprod_schema_export.sql''] (child_env w)]
        else []) \<and>
   after_input (new_events proc line w) =
     (if lower line = ''yes''
      then Run apply_cmd (child_env w)
           # (if fst (apply_result proc w) = 0
              then [Print ''Schema applied successfully!'']
              else [Print ''Schema application had issues:'',
                    Print (if snd (snd (apply_result proc w)) = [] then ''No error output''
                           else take 2000 (snd (snd (apply_result proc w))))])
           @ [Print (CHR 0x0A # ''[Step 3] Migration complete!''),
              Print (CHR 0x0A # ''Next steps:''),
              Print ''1. Migrate admin user manually'',
              Print ''2. Update preprod environment variables'',
              Print ''3. Test login functionality'']
      else [Print ''Aborted.''])"
proof -
  have a: "filter (\<lambda>e. \<not> is_print e) (new_events proc line w) =
     [Run (pg_dump_schema_cmd None False) (child_env w),
      Open_w ''preprod_schema_export.sql'',
      Write ''preprod_schema_export.sql'' (dump_out proc w),
      Input ''Continue? (yes/no): '']
     @ (if lower line = ''yes''
        then [Run [''psql'', ''-h'', TARGET_HOST, ''-p'', ''5432'', ''-U'', TARGET_USER,
                   ''-d'', TARGET_DB, ''-f'', ''preprod_schema_export.sql''] (child_env w)]
        else [])"
    by (simp add: new_events_eq non_prints_of_head non_prints_of_tail apply_cmd_def
        run_psql_file_cmd_def)
  have b: "after_input (new_events proc line w) =
     (if lower line = ''yes''
      then Run apply_cmd (child_env w)
           # (if fst (apply_result proc w) = 0
              then [Print ''Schema applied successfully!'']
              else [Print ''Schema application had issues:'',
                    Print (if snd (snd (apply_result proc w)) = [] then ''No error output''
                           else take 2000 (snd (snd (apply_result proc w))))])
           @ [Print (CHR 0x0A # ''[Step 3] Migration complete!''),
              Print (CHR 0x0A # ''Next steps:''),
              Print ''1. Migrate admin user manually'',
              Print ''2. Update preprod environment variables'',
              Print ''3. Test login functionality'']
      else [Print ''Aborted.''])"
    by (simp only: after_input_new_events tail_events_def)
  from a b main_result [of proc line w] show ?thesis
    by blast
qed

theorem steps_in_program_order_witness:
  "lower ''no'' \<noteq> ''yes'' \<and>
   filter (\<lambda>e. \<not> is_print e) (new_events (sample_proc 0 []) ''no'' sample_world) =
     [Run (pg_dump_schema_cmd None False) (child_env sample_world),
      Open_w ''preprod_schema_export.sql'',
      Write ''preprod_schema_export.sql'' (dump_out (sample_proc 0 []) sample_world),
      Input ''Continue? (yes/no): '']"
proof -
  have n: "lower ''no'' \<noteq> ''yes''"
    by (simp add: lower_yes_iff yes_spellings_def)
  from n steps_in_program_order [of "sample_proc 0 []" "''no''" sample_world] show ?thesis
    by simp
qed

section \<open>The psql commands\<close>

text \<open>
  C9. For all arguments, the command of \<^verbatim>\<open>run_psql_file\<close> nowhere has \<^verbatim>\<open>--set\<close>
  followed by \<^verbatim>\<open>ON_ERROR_STOP=on\<close>, and the command of \<^verbatim>\<open>run_psql\<close> has: it is the
  other command with its last two arguments replaced by this pair and \<^verbatim>\<open>-c sql\<close>. The
  command of the apply step holds neither of the two words, and it is the only \<^verbatim>\<open>psql\<close>
  command of a run.
\<close>

theorem apply_command_has_no_on_error_stop:
  "\<not> adjacent ''--set'' ''ON_ERROR_STOP=on'' (run_psql_file_cmd host user db filename) \<and>
   adjacent ''--set'' ''ON_ERROR_STOP=on'' (run_psql_cmd host user db sql) \<and>
   run_psql_cmd host user db sql =
     butlast (butlast (run_psql_file_cmd host user db filename))
     @ [''--set'', ''ON_ERROR_STOP=on'', ''-c'', sql] \<and>
   ''--set'' \<notin> set apply_cmd \<and>
   ''ON_ERROR_STOP=on'' \<notin> set apply_cmd \<and>
   filter (\<lambda>c. hd c = ''psql'') (map fst (runs (new_events proc line w))) =
     (if lower line = ''yes'' then [apply_cmd] else [])"
proof -
  have a: "\<not> adjacent ''--set'' ''ON_ERROR_STOP=on'' (run_psql_file_cmd host user db filename)"
    by (simp add: run_psql_file_cmd_def)
  have b: "adjacent ''--set'' ''ON_ERROR_STOP=on'' (run_psql_cmd host user db sql)"
    by (simp add: run_psql_cmd_def)
  have c: "run_psql_cmd host user db sql =
     butlast (butlast (run_psql_file_cmd host user db filename))
     @ [''--set'', ''ON_ERROR_STOP=on'', ''-c'', sql]"
    by (simp add: run_psql_cmd_def run_psql_file_cmd_def)
  have d: "''--set'' \<notin> set apply_cmd" "''ON_ERROR_STOP=on'' \<notin> set apply_cmd"
    by (simp_all add: apply_cmd_def run_psql_file_cmd_def TARGET_HOST_def TARGET_USER_def
        TARGET_DB_def)
  have e: "filter (\<lambda>c. hd c = ''psql'') (map fst (runs (new_events proc line w))) =
     (if lower line = ''yes'' then [apply_cmd] else [])"
    by (simp add: runs_new_events hd_pg_dump_schema_cmd hd_apply_cmd)
  from a b c d e show ?thesis
    by blast
qed

theorem apply_command_has_no_on_error_stop_witness:
  "lower ''yes'' = ''yes'' \<and>
   filter (\<lambda>c. hd c = ''psql'') (map fst (runs (new_events (sample_proc 0 []) ''yes'' sample_world)))
     = [apply_cmd] \<and>
   ''--set'' \<notin> set apply_cmd"
proof -
  have y: "lower ''yes'' = ''yes''"
    by (simp add: lower_yes_iff yes_spellings_def)
  from y apply_command_has_no_on_error_stop [of "''h''" "''u''" "''d''" "''f''" "''s''"
      "sample_proc 0 []" "''yes''" sample_world]
  show ?thesis
    by simp
qed

section \<open>The arguments of the dump\<close>

lemma table_args_without_flag:
  "filter (\<lambda>a. a \<noteq> ''-t'') (concat (map (\<lambda>table. [''-t'', ''public.'' @ table]) ts)) =
     map ((@) ''public.'') ts"
  by (induction ts) simp_all

lemma schema_only_not_a_table_arg:
  "''--schema-only'' \<notin> set (concat (map (\<lambda>table. [''-t'', ''public.'' @ table]) ts))"
  by (induction ts) simp_all

lemma pg_dump_schema_cmd_tables:
  "pg_dump_schema_cmd (Some ts) include_data =
     pg_dump_schema_cmd None include_data
     @ concat (map (\<lambda>table. [''-t'', ''public.'' @ table]) ts)"
  by (simp add: pg_dump_schema_cmd_def)

lemma schema_only_iff:
  "(''--schema-only'' \<in> set (pg_dump_schema_cmd tables include_data)) = (\<not> include_data)"
proof (cases tables)
  case None
  then show ?thesis
    by (simp add: pg_dump_schema_cmd_def SOURCE_HOST_def SOURCE_PORT_def SOURCE_USER_def
        SOURCE_DB_def)
next
  case (Some ts)
  have "(''--schema-only'' \<in> set (pg_dump_schema_cmd None include_data)) = (\<not> include_data)"
    by (simp add: pg_dump_schema_cmd_def SOURCE_HOST_def SOURCE_PORT_def SOURCE_USER_def
        SOURCE_DB_def)
  with Some show ?thesis
    using schema_only_not_a_table_arg [of ts]
    by (simp add: pg_dump_schema_cmd_tables)
qed

text \<open>
  C10. A call of \<^verbatim>\<open>pg_dump_schema\<close> starts the command \<^verbatim>\<open>pg_dump_schema_cmd\<close> of its
  arguments. This has \<^verbatim>\<open>--schema-only\<close> exactly when \<^verbatim>\<open>include_data\<close> is false. Without
  tables it is the fixed flags, then \<^verbatim>\<open>--schema-only\<close> if asked, and has no \<^verbatim>\<open>-t\<close>. With
  a list of tables it is that command followed by \<^verbatim>\<open>-t\<close>, \<^verbatim>\<open>public.\<close> and its name, for
  each table: what follows the fixed part, without the \<^verbatim>\<open>-t\<close>, is the list of the qualified
  names in the order given.
\<close>

theorem pg_dump_schema_arguments:
  "events (snd (pg_dump_schema proc tables include_data w)) =
     events w @ [Run (pg_dump_schema_cmd tables include_data) (child_env w)] \<and>
   (''--schema-only'' \<in> set (pg_dump_schema_cmd tables include_data)) = (\<not> include_data) \<and>
   pg_dump_schema_cmd None include_data =
     [''pg_dump'', ''-h'', SOURCE_HOST, ''-p'', SOURCE_PORT, ''-U'', SOURCE_USER,
      ''-d'', SOURCE_DB, ''--no-owner'', ''--no-acl'', ''-n'', ''public'']
     @ (if include_data then [] else [''--schema-only'']) \<and>
   ''-t'' \<notin> set (pg_dump_schema_cmd None include_data) \<and>
   pg_dump_schema_cmd (Some ts) include_data =
     pg_dump_schema_cmd None include_data
     @ concat (map (\<lambda>table. [''-t'', ''public.'' @ table]) ts) \<and>
   filter (\<lambda>a. a \<noteq> ''-t'')
       (drop (length (pg_dump_schema_cmd None include_data))
          (pg_dump_schema_cmd (Some ts) include_data)) =
     map ((@) ''public.'') ts"
proof -
  have a: "pg_dump_schema_cmd None include_data =
     [''pg_dump'', ''-h'', SOURCE_HOST, ''-p'', SOURCE_PORT, ''-U'', SOURCE_USER,
      ''-d'', SOURCE_DB, ''--no-owner'', ''--no-acl'', ''-n'', ''public'']
     @ (if include_data then [] else [''--schema-only''])"
    by (simp add: pg_dump_schema_cmd_def)
  have b: "filter (\<lambda>a. a \<noteq> ''-t'')
       (drop (length (pg_dump_schema_cmd None include_data))
          (pg_dump_schema_cmd (Some ts) include_data)) =
     map ((@) ''public.'') ts"
    by (simp only: pg_dump_schema_cmd_tables drop_append diff_self_eq_0 drop_all [OF order_refl]
        drop_0 append_Nil table_args_without_flag)
  from a b pg_dump_schema_events [of proc tables include_data w]
    schema_only_iff [of tables include_data] no_filter_by_default [of include_data]
    pg_dump_schema_cmd_tables [of ts include_data]
  show ?thesis
    by blast
qed

theorem pg_dump_schema_arguments_witness:
  "pg_dump_schema_cmd (Some [''roles'', ''users'']) False =
     [''pg_dump'', ''-h'', SOURCE_HOST, ''-p'', SOURCE_PORT, ''-U'', SOURCE_USER,
      ''-d'', SOURCE_DB, ''--no-owner'', ''--no-acl'', ''-n'', ''public'', ''--schema-only'',
      ''-t'', ''public.roles'', ''-t'', ''public.users''] \<and>
   ''--schema-only'' \<notin> set (pg_dump_schema_cmd (Some [''roles'', ''users'']) True)"
proof -
  note f = pg_dump_schema_arguments [of "sample_proc 0 []" "Some [''roles'', ''users'']" False
      sample_world "[''roles'', ''users'']"]
  note t = pg_dump_schema_arguments [of "sample_proc 0 []" "Some [''roles'', ''users'']" True
      sample_world "[''roles'', ''users'']"]
  from f have none: "pg_dump_schema_cmd None False =
     [''pg_dump'', ''-h'', SOURCE_HOST, ''-p'', SOURCE_PORT, ''-U'', SOURCE_USER,
      ''-d'', SOURCE_DB, ''--no-owner'', ''--no-acl'', ''-n'', ''public'']
     @ (if False then [] else [''--schema-only''])"
    by blast
  from f have some: "pg_dump_schema_cmd (Some [''roles'', ''users'']) False =
     pg_dump_schema_cmd None False
     @ concat (map (\<lambda>table. [''-t'', ''public.'' @ table]) [''roles'', ''users''])"
    by blast
  have a: "pg_dump_schema_cmd (Some [''roles'', ''users'']) False =
     [''pg_dump'', ''-h'', SOURCE_HOST, ''-p'', SOURCE_PORT, ''-U'', SOURCE_USER,
      ''-d'', SOURCE_DB, ''--no-owner'', ''--no-acl'', ''-n'', ''public'', ''--schema-only'',
      ''-t'', ''public.roles'', ''-t'', ''public.users'']"
    by (simp only: some none) simp
  from t have "(''--schema-only'' \<in> set (pg_dump_schema_cmd (Some [''roles'', ''users'']) True))
      = (\<not> True)"
    by blast
  then have b: "''--schema-only'' \<notin> set (pg_dump_schema_cmd (Some [''roles'', ''users'']) True)"
    by simp
  from a b show ?thesis
    by (rule conjI)
qed

end
